theory Spec2Isabelle
  imports Main "HOL-Library.Sublist" "HOL-Library.AList"
begin

section \<open>JavaScript values, errors and promises\<close>

text \<open>
  Values that \<^verbatim>\<open>response.json()\<close> can deliver, with \<open>JUndef\<close> for \<^verbatim>\<open>undefined\<close>
  (an absent property reads as \<^verbatim>\<open>undefined\<close>). Numbers are the integers; an object is
  the association list of its own properties, read with \<open>map_of\<close>.
\<close>

datatype jsval =
    JUndef
  | JNull
  | JBool bool
  | JNum int
  | JStr string
  | JArr "jsval list"
  | JObj "(string \<times> jsval) list"

text \<open>An \<^verbatim>\<open>Error\<close> instance is its message.\<close>

datatype js_error = Error (message: string)

text \<open>
  A thrown value is an \<^verbatim>\<open>Error\<close> instance, or any other value, kept as the text that
  \<^verbatim>\<open>String(error)\<close> gives for it.
\<close>

datatype thrown = ThrownError js_error | ThrownOther string

text \<open>
  How a promise stands when the timer of \<^verbatim>\<open>timeoutMs\<close> fires: resolved, rejected, or
  still pending.
\<close>

datatype 'a settled = Resolved 'a | Rejected thrown | Pending

section \<open>Strings\<close>

definition digit_char :: "nat \<Rightarrow> char" where
  "digit_char d = char_of (48 + d)"

fun show_nat :: "nat \<Rightarrow> string" where
  "show_nat n = (if n < 10 then [digit_char n] else show_nat (n div 10) @ [digit_char (n mod 10)])"

declare show_nat.simps [simp del]

text \<open>The decimal text of an integer, as a template literal prints it.\<close>

definition show_int :: "int \<Rightarrow> string" where
  "show_int i = (if i < 0 then CHR ''-'' # show_nat (nat (- i)) else show_nat (nat i))"

definition lower_char :: "char \<Rightarrow> char" where
  "lower_char c =
     (let n = (of_char c :: nat) in if 65 \<le> n \<and> n \<le> 90 then char_of (n + 32) else c)"

definition toLowerCase :: "string \<Rightarrow> string" where
  "toLowerCase s = map lower_char s"

text \<open>\<^verbatim>\<open>s.includes(pattern)\<close>: \<open>pattern\<close> occurs in \<open>s\<close> as a contiguous run.\<close>

fun str_includes :: "string \<Rightarrow> string \<Rightarrow> bool" where
  "str_includes [] pattern = (pattern = [])"
| "str_includes (c # cs) pattern = (prefix pattern (c # cs) \<or> str_includes cs pattern)"

section \<open>lib/hubspot-retry.ts\<close>

text \<open>
  \<^verbatim>\<open>RetryOptions\<close>: each field is optional, \<open>None\<close> when it is absent. The numbers
  are integers, of either sign.
\<close>

record RetryOptions =
  maxAttempts :: "int option"
  timeoutMs :: "int option"
  initialDelayMs :: "int option"

definition DEFAULT_OPTIONS :: RetryOptions where
  "DEFAULT_OPTIONS = \<lparr>maxAttempts = Some 3, timeoutMs = Some 10000, initialDelayMs = Some 2000\<rparr>"

text \<open>
  The object spread \<^verbatim>\<open>{ ...DEFAULT_OPTIONS, ...options }\<close>: a field that \<open>options\<close> gives
  wins. (A field given as \<^verbatim>\<open>undefined\<close> is \<open>None\<close> here; it overrides the default with
  \<^verbatim>\<open>undefined\<close>, and the destructuring default below then puts the same number back.)
\<close>

definition spread_options :: "RetryOptions \<Rightarrow> RetryOptions \<Rightarrow> RetryOptions" where
  "spread_options d options =
     \<lparr>maxAttempts = (case maxAttempts options of None \<Rightarrow> maxAttempts d | Some n \<Rightarrow> Some n),
      timeoutMs = (case timeoutMs options of None \<Rightarrow> timeoutMs d | Some n \<Rightarrow> Some n),
      initialDelayMs = (case initialDelayMs options of None \<Rightarrow> initialDelayMs d | Some n \<Rightarrow> Some n)\<rparr>"

definition or_default :: "int option \<Rightarrow> int \<Rightarrow> int" where
  "or_default v d = (case v of None \<Rightarrow> d | Some n \<Rightarrow> n)"

text \<open>
  What a run of the executor leaves behind: the state \<open>ext\<close> of whatever the operation
  acts on, how many times the operation was invoked, and the delays waited, in order.
\<close>

record 's exec =
  ext :: 's
  invoked :: nat
  slept :: "int list"

definition retryablePatterns :: "string list" where
  "retryablePatterns =
     [''econnrefused'', ''enotfound'', ''etimedout'', ''timeout after'',
      ''429'', ''500'', ''502'', ''503'', ''504'']"

definition isRetryableError :: "js_error \<Rightarrow> bool" where
  "isRetryableError error =
     (let msg = toLowerCase (message error)
      in list_ex (\<lambda>pattern. str_includes msg pattern) retryablePatterns)"

text \<open>Calling \<^verbatim>\<open>fn()\<close> once.\<close>

definition invoke :: "('s \<Rightarrow> 'a settled \<times> 's) \<Rightarrow> 's exec \<Rightarrow> 'a settled \<times> 's exec" where
  "invoke fn st =
     (let (p, s') = fn (ext st) in (p, st\<lparr>ext := s', invoked := invoked st + 1\<rparr>))"

text \<open>\<^verbatim>\<open>Promise.race([fn(), timer])\<close>: the timer rejects only a promise still pending.\<close>

definition race_timeout :: "'a settled \<Rightarrow> int \<Rightarrow> thrown + 'a" where
  "race_timeout p timeout =
     (case p of
        Resolved v \<Rightarrow> Inr v
      | Rejected t \<Rightarrow> Inl t
      | Pending \<Rightarrow>
          Inl (ThrownError (Error (''Request timeout after '' @ show_int timeout @ ''ms''))))"

text \<open>\<^verbatim>\<open>error instanceof Error ? error : new Error(String(error))\<close>\<close>

definition as_error :: "thrown \<Rightarrow> js_error" where
  "as_error t = (case t of ThrownError e \<Rightarrow> e | ThrownOther s \<Rightarrow> Error s)"

definition sleep :: "int \<Rightarrow> 's exec \<Rightarrow> 's exec" where
  "sleep delayMs st = st\<lparr>slept := slept st @ [delayMs]\<rparr>"

text \<open>
  The \<^verbatim>\<open>for\<close> loop of \<^verbatim>\<open>retryWithBackoff\<close>, entered at \<open>attempt\<close> with the
  \<open>lastError\<close> so far; the \<open>else\<close> branch is the \<^verbatim>\<open>throw\<close> after the loop.
\<close>

function retry_loop ::
  "('s \<Rightarrow> 'a settled \<times> 's) \<Rightarrow> int \<Rightarrow> int \<Rightarrow> int \<Rightarrow> int \<Rightarrow> js_error option \<Rightarrow> 's exec
     \<Rightarrow> (js_error + 'a) \<times> 's exec"
where
  "retry_loop fn maxA timeout initialDelay attempt lastError st =
     (if attempt \<le> maxA then
        (let (p, st1) = invoke fn st in
         case race_timeout p timeout of
           Inr result \<Rightarrow> (Inr result, st1)
         | Inl t \<Rightarrow>
             (let lastError' = as_error t;
                  isRetryable = isRetryableError lastError';
                  isLastAttempt = (attempt = maxA)
              in if isLastAttempt \<or> \<not> isRetryable then (Inl lastError', st1)
                 else
                   (let delayMs = initialDelay * 2 ^ nat (attempt - 1)
                    in retry_loop fn maxA timeout initialDelay (attempt + 1) (Some lastError')
                         (sleep delayMs st1))))
      else
        (Inl (case lastError of
                Some e \<Rightarrow> e
              | None \<Rightarrow> Error ''Unknown error in retryWithBackoff''), st))"
  by pat_completeness auto
termination
  by (relation "measure (\<lambda>(fn, maxA, timeout, initialDelay, attempt, lastError, st).
                           nat (maxA + 1 - attempt))") auto

declare retry_loop.simps [simp del]

definition retryWithBackoff ::
  "('s \<Rightarrow> 'a settled \<times> 's) \<Rightarrow> RetryOptions \<Rightarrow> 's exec \<Rightarrow> (js_error + 'a) \<times> 's exec"
where
  "retryWithBackoff fn options st =
     (let config = spread_options DEFAULT_OPTIONS options
      in retry_loop fn
           (or_default (maxAttempts config) 3)
           (or_default (timeoutMs config) 10000)
           (or_default (initialDelayMs config) 2000)
           1 None st)"

section \<open>JavaScript operators that lib/hubspot.ts applies to a response body\<close>

fun truthy :: "jsval \<Rightarrow> bool" where
  "truthy JUndef = False"
| "truthy JNull = False"
| "truthy (JBool b) = b"
| "truthy (JNum n) = (n \<noteq> 0)"
| "truthy (JStr s) = (s \<noteq> [])"
| "truthy (JArr xs) = True"
| "truthy (JObj kvs) = True"

text \<open>\<^verbatim>\<open>a || b\<close>\<close>

definition js_or :: "jsval \<Rightarrow> jsval \<Rightarrow> jsval" where
  "js_or a b = (if truthy a then a else b)"

definition type_error :: "jsval \<Rightarrow> string \<Rightarrow> thrown" where
  "type_error v p =
     ThrownError (Error (''Cannot read properties of ''
       @ (if v = JNull then ''null'' else ''undefined'')
       @ '' (reading '' @ [CHR 0x27] @ p @ [CHR 0x27] @ '')''))"

definition is_digit :: "char \<Rightarrow> bool" where
  "is_digit c = (let n = (of_char c :: nat) in 48 \<le> n \<and> n \<le> 57)"

definition digits_value :: "string \<Rightarrow> nat" where
  "digits_value s = foldl (\<lambda>acc c. 10 * acc + ((of_char c :: nat) - 48)) 0 s"

text \<open>A property name that is an array index: a decimal numeral with no leading zero.\<close>

definition parse_index :: "string \<Rightarrow> nat option" where
  "parse_index p =
     (if p \<noteq> [] \<and> list_all is_digit p \<and> (length p = 1 \<or> hd p \<noteq> CHR ''0'')
      then Some (digits_value p) else None)"

text \<open>
  \<^verbatim>\<open>v.p\<close> and \<^verbatim>\<open>v[0]\<close> on own properties: reading from \<^verbatim>\<open>null\<close> or \<^verbatim>\<open>undefined\<close>
  throws a TypeError, an absent property is \<^verbatim>\<open>undefined\<close>. The names the code reads
  (\<open>results\<close>, \<open>length\<close>, \<open>0\<close>, \<open>vid\<close>, \<open>id\<close>, \<open>message\<close>) are not inherited ones.
\<close>

fun get_prop :: "jsval \<Rightarrow> string \<Rightarrow> thrown + jsval" where
  "get_prop JUndef p = Inl (type_error JUndef p)"
| "get_prop JNull p = Inl (type_error JNull p)"
| "get_prop (JBool b) p = Inr JUndef"
| "get_prop (JNum n) p = Inr JUndef"
| "get_prop (JStr s) p =
     Inr (if p = ''length'' then JNum (int (length s))
          else case parse_index p of
                 None \<Rightarrow> JUndef
               | Some i \<Rightarrow> if i < length s then JStr [s ! i] else JUndef)"
| "get_prop (JArr xs) p =
     Inr (if p = ''length'' then JNum (int (length xs))
          else case parse_index p of
                 None \<Rightarrow> JUndef
               | Some i \<Rightarrow> if i < length xs then xs ! i else JUndef)"
| "get_prop (JObj kvs) p = Inr (case map_of kvs p of None \<Rightarrow> JUndef | Some v \<Rightarrow> v)"

text \<open>\<^verbatim>\<open>v?.p\<close>\<close>

definition opt_prop :: "jsval \<Rightarrow> string \<Rightarrow> jsval" where
  "opt_prop v p = (case get_prop v p of Inl t \<Rightarrow> JUndef | Inr x \<Rightarrow> x)"

text \<open>
  The number a string converts to in a comparison: the empty string is 0, a run of decimal
  digits is its value. Every other string is read as NaN (\<open>None\<close>): signs, blanks,
  fractions, exponents and radix prefixes have no place among the integers of this model.
\<close>

definition str_to_number :: "string \<Rightarrow> int option" where
  "str_to_number s =
     (if s = [] then Some 0
      else if list_all is_digit s then Some (int (digits_value s)) else None)"

text \<open>The conversion to a number that \<^verbatim>\<open>x > 0\<close> applies to \<open>x\<close>; \<open>None\<close> is NaN.\<close>

fun to_number :: "jsval \<Rightarrow> int option" where
  "to_number JUndef = None"
| "to_number JNull = Some 0"
| "to_number (JBool b) = Some (if b then 1 else 0)"
| "to_number (JNum n) = Some n"
| "to_number (JStr s) = str_to_number s"
| "to_number (JArr []) = Some 0"
| "to_number (JArr [v]) =
     (case v of
        JUndef \<Rightarrow> Some 0
      | JNull \<Rightarrow> Some 0
      | JBool b \<Rightarrow> None
      | JNum n \<Rightarrow> Some n
      | JStr s \<Rightarrow> str_to_number s
      | JArr ys \<Rightarrow> to_number (JArr ys)
      | JObj kvs \<Rightarrow> None)"
| "to_number (JArr (v # w # ws)) = None"
| "to_number (JObj kvs) = None"

text \<open>\<^verbatim>\<open>x > 0\<close>\<close>

definition gt_zero :: "jsval \<Rightarrow> bool" where
  "gt_zero x = (case to_number x of None \<Rightarrow> False | Some n \<Rightarrow> 0 < n)"

section \<open>The network\<close>

text \<open>
  A call of \<^verbatim>\<open>fetch(url, options)\<close>, named by its endpoint and carrying what the code
  puts into the URL, the bearer header and the JSON body.
\<close>

datatype request =
    ContactsSearch string string
      \<comment> \<open>POST /crm/v3/objects/contacts/search: apiKey, email (EQ filter, limit 1, by id descending)\<close>
  | ContactsCreate string "(string \<times> string) list"
      \<comment> \<open>POST /crm/v3/objects/contacts: apiKey, the flat properties object\<close>
  | ContactsUpdate string jsval "(string \<times> string) list"
      \<comment> \<open>PATCH /crm/v3/objects/contacts/${vid}: apiKey, vid, the flat properties object\<close>
  | ListMembersAdd string string string
      \<comment> \<open>POST /crm/v3/lists/${listId}/members: apiKey, listId, email\<close>
  | DealsCreate string "(string \<times> string) list"
      \<comment> \<open>POST /crm/v3/objects/deals: apiKey, the array of name/value pairs\<close>
  | NotesCreate string string string jsval
      \<comment> \<open>POST /crm/v3/objects/notes: apiKey, activityText, activityType, associated contact id\<close>

text \<open>
  A \<^verbatim>\<open>Response\<close>: its status, and what \<^verbatim>\<open>response.json()\<close> gives, a rejection when
  the body does not parse. \<^verbatim>\<open>response.ok\<close> is true for the statuses 200 to 299. The read of
  the body is taken to settle: the code awaits \<^verbatim>\<open>response.json()\<close> outside the timeout
  race, so a response whose body never ends would keep the call from returning, and such a
  response is not among the values of this type.
\<close>

record response =
  status :: nat
  body :: "thrown + jsval"

definition ok :: "response \<Rightarrow> bool" where
  "ok r = (200 \<le> status r \<and> status r \<le> 299)"

text \<open>
  The remote side is a parameter \<open>net\<close>: it answers a request in its state \<open>'w\<close> and
  moves to a new state. \<^verbatim>\<open>fetch\<close> resolves with the response whatever its status and
  rejects only when no response arrives. The client's side of the network is the list of
  requests sent.
\<close>

type_synonym 'w net = "request \<Rightarrow> 'w \<Rightarrow> response settled \<times> 'w"

record 'w hub =
  remote :: 'w
  requests :: "request list"

definition fetch :: "'w net \<Rightarrow> request \<Rightarrow> 'w hub \<Rightarrow> response settled \<times> 'w hub" where
  "fetch net req h =
     (let (p, w') = net req (remote h) in (p, \<lparr>remote = w', requests = requests h @ [req]\<rparr>))"

definition fetchWithRetry ::
  "'w net \<Rightarrow> request \<Rightarrow> RetryOptions option \<Rightarrow> 'w hub exec \<Rightarrow> (js_error + response) \<times> 'w hub exec"
where
  "fetchWithRetry net req retryOptions st =
     retryWithBackoff (fetch net req)
       (case retryOptions of
          None \<Rightarrow> \<lparr>maxAttempts = None, timeoutMs = None, initialDelayMs = None\<rparr>
        | Some opts \<Rightarrow> opts)
       st"

section \<open>lib/hubspot.ts\<close>

record HubSpotContact =
  email :: string
  firstName :: "string option"
  lastName :: "string option"
  company :: "string option"
  lifecycleStage :: "string option"
  source :: "string option"
  customFields :: "(string \<times> string) list option"

text \<open>
  The result objects \<^verbatim>\<open>{ success, vid?, error? }\<close>, \<^verbatim>\<open>{ success, dealId?, error? }\<close> and
  \<^verbatim>\<open>{ success, error? }\<close>; a property that is absent is \<open>JUndef\<close>.
\<close>

record op_result =
  success :: bool
  vid :: jsval
  dealId :: jsval
  error :: jsval

text \<open>\<^verbatim>\<open>process.env.HUBSPOT_API_KEY\<close> is \<open>None\<close> when unset; the empty string is falsy too.\<close>

definition getHubSpotApiKey :: "string option \<Rightarrow> thrown + string" where
  "getHubSpotApiKey env =
     (case env of
        None \<Rightarrow> Inl (ThrownError (Error ''HUBSPOT_API_KEY environment variable is not set''))
      | Some apiKey \<Rightarrow>
          if apiKey = [] then
            Inl (ThrownError (Error ''HUBSPOT_API_KEY environment variable is not set''))
          else Inr apiKey)"

text \<open>\<^verbatim>\<open>s || d\<close> on an optional string\<close>

definition str_or :: "string option \<Rightarrow> string \<Rightarrow> string" where
  "str_or s d = (case s of None \<Rightarrow> d | Some x \<Rightarrow> if x = [] then d else x)"

text \<open>
  \<^verbatim>\<open>properties.reduce((acc, p) => ({ ...acc, [p.property]: p.value }), {})\<close>: a later
  pair with the same name replaces the value of the earlier one, which keeps its place.
\<close>

definition flat_object :: "(string \<times> string) list \<Rightarrow> (string \<times> string) list" where
  "flat_object properties = foldl (\<lambda>acc p. AList.update (fst p) (snd p) acc) [] properties"

text \<open>
  The \<^verbatim>\<open>catch\<close> blocks:
  \<^verbatim>\<open>{ success: false, error: error instanceof Error ? error.message : 'Unknown error' }\<close>
\<close>

definition catch_failure :: "thrown \<Rightarrow> op_result" where
  "catch_failure t =
     \<lparr>success = False, vid = JUndef, dealId = JUndef,
      error = JStr (case t of ThrownError e \<Rightarrow> message e | ThrownOther s \<Rightarrow> ''Unknown error'')\<rparr>"

definition failure :: "jsval \<Rightarrow> op_result" where
  "failure e = \<lparr>success = False, vid = JUndef, dealId = JUndef, error = e\<rparr>"

text \<open>The \<^verbatim>\<open>try\<close> block of \<^verbatim>\<open>getContactByEmail\<close>.\<close>

definition getContactByEmail_try ::
  "'w net \<Rightarrow> string \<Rightarrow> string \<Rightarrow> 'w hub exec \<Rightarrow> (thrown + jsval) \<times> 'w hub exec"
where
  "getContactByEmail_try net email_arg apiKey st =
     (case fetchWithRetry net (ContactsSearch apiKey email_arg) None st of
        (Inl e, st1) \<Rightarrow> (Inl (ThrownError e), st1)
      | (Inr response, st1) \<Rightarrow>
          if \<not> ok response then (Inr JNull, st1)
          else
            (case body response of
               Inl t \<Rightarrow> (Inl t, st1)
             | Inr data \<Rightarrow>
                 (case get_prop data ''results'' of
                    Inl t \<Rightarrow> (Inl t, st1)
                  | Inr results \<Rightarrow>
                      (let contacts = js_or results (JArr []) in
                       case get_prop contacts ''length'' of
                         Inl t \<Rightarrow> (Inl t, st1)
                       | Inr len \<Rightarrow>
                           if gt_zero len then
                             (case get_prop contacts ''0'' of
                                Inl t \<Rightarrow> (Inl t, st1)
                              | Inr c \<Rightarrow> (Inr c, st1))
                           else (Inr JNull, st1)))))"

definition getContactByEmail ::
  "'w net \<Rightarrow> string \<Rightarrow> string \<Rightarrow> 'w hub exec \<Rightarrow> jsval \<times> 'w hub exec"
where
  "getContactByEmail net email_arg apiKey st =
     (case getContactByEmail_try net email_arg apiKey st of
        (Inl t, st1) \<Rightarrow> (JNull, st1)
      | (Inr c, st1) \<Rightarrow> (c, st1))"

text \<open>The \<^verbatim>\<open>try\<close> block of \<^verbatim>\<open>createContact\<close>.\<close>

definition createContact_try ::
  "'w net \<Rightarrow> (string \<times> string) list \<Rightarrow> string \<Rightarrow> 'w hub exec \<Rightarrow> (thrown + op_result) \<times> 'w hub exec"
where
  "createContact_try net properties apiKey st =
     (case fetchWithRetry net (ContactsCreate apiKey (flat_object properties)) None st of
        (Inl e, st1) \<Rightarrow> (Inl (ThrownError e), st1)
      | (Inr response, st1) \<Rightarrow>
          if \<not> ok response then
            (case body response of
               Inl t \<Rightarrow> (Inl t, st1)
             | Inr err \<Rightarrow>
                 (case get_prop err ''message'' of
                    Inl t \<Rightarrow> (Inl t, st1)
                  | Inr m \<Rightarrow> (Inr (failure (js_or m (JStr ''Failed to create contact''))), st1)))
          else
            (case body response of
               Inl t \<Rightarrow> (Inl t, st1)
             | Inr data \<Rightarrow>
                 (case get_prop data ''id'' of
                    Inl t \<Rightarrow> (Inl t, st1)
                  | Inr i \<Rightarrow>
                      (Inr \<lparr>success = True, vid = i, dealId = JUndef, error = JUndef\<rparr>, st1))))"

definition createContact ::
  "'w net \<Rightarrow> (string \<times> string) list \<Rightarrow> string \<Rightarrow> 'w hub exec \<Rightarrow> op_result \<times> 'w hub exec"
where
  "createContact net properties apiKey st =
     (case createContact_try net properties apiKey st of
        (Inl t, st1) \<Rightarrow> (catch_failure t, st1)
      | (Inr r, st1) \<Rightarrow> (r, st1))"

text \<open>The \<^verbatim>\<open>try\<close> block of \<^verbatim>\<open>updateContact\<close>.\<close>

definition updateContact_try ::
  "'w net \<Rightarrow> jsval \<Rightarrow> (string \<times> string) list \<Rightarrow> string \<Rightarrow> 'w hub exec
     \<Rightarrow> (thrown + op_result) \<times> 'w hub exec"
where
  "updateContact_try net v properties apiKey st =
     (case fetchWithRetry net (ContactsUpdate apiKey v (flat_object properties)) None st of
        (Inl e, st1) \<Rightarrow> (Inl (ThrownError e), st1)
      | (Inr response, st1) \<Rightarrow>
          if \<not> ok response then
            (case body response of
               Inl t \<Rightarrow> (Inl t, st1)
             | Inr err \<Rightarrow>
                 (case get_prop err ''message'' of
                    Inl t \<Rightarrow> (Inl t, st1)
                  | Inr m \<Rightarrow> (Inr (failure (js_or m (JStr ''Failed to update contact''))), st1)))
          else (Inr \<lparr>success = True, vid = v, dealId = JUndef, error = JUndef\<rparr>, st1))"

definition updateContact ::
  "'w net \<Rightarrow> jsval \<Rightarrow> (string \<times> string) list \<Rightarrow> string \<Rightarrow> 'w hub exec
     \<Rightarrow> op_result \<times> 'w hub exec"
where
  "updateContact net v properties apiKey st =
     (case updateContact_try net v properties apiKey st of
        (Inl t, st1) \<Rightarrow> (catch_failure t, st1)
      | (Inr r, st1) \<Rightarrow> (r, st1))"

text \<open>
  The array \<^verbatim>\<open>properties\<close> that \<^verbatim>\<open>syncContactToHubSpot\<close> prepares: the six named
  fields, then the custom fields pushed in the order of \<^verbatim>\<open>Object.entries\<close>.
\<close>

definition contact_properties :: "HubSpotContact \<Rightarrow> (string \<times> string) list" where
  "contact_properties contactData =
     [(''email'', email contactData),
      (''firstname'', str_or (firstName contactData) []),
      (''lastname'', str_or (lastName contactData) []),
      (''company'', str_or (company contactData) []),
      (''lifecyclestage'', str_or (lifecycleStage contactData) ''subscriber''),
      (''hs_lead_status'', ''NEW'')]
     @ (case customFields contactData of None \<Rightarrow> [] | Some kvs \<Rightarrow> kvs)"

text \<open>The \<^verbatim>\<open>try\<close> block of \<^verbatim>\<open>syncContactToHubSpot\<close>.\<close>

definition syncContactToHubSpot_try ::
  "'w net \<Rightarrow> string option \<Rightarrow> HubSpotContact \<Rightarrow> 'w hub exec \<Rightarrow> (thrown + op_result) \<times> 'w hub exec"
where
  "syncContactToHubSpot_try net env contactData st =
     (case getHubSpotApiKey env of
        Inl t \<Rightarrow> (Inl t, st)
      | Inr apiKey \<Rightarrow>
          (let properties = contact_properties contactData;
               (existingContact, st1) = getContactByEmail net (email contactData) apiKey st
           in if truthy (opt_prop existingContact ''vid'') then
                (case get_prop existingContact ''vid'' of
                   Inl t \<Rightarrow> (Inl t, st1)
                 | Inr v \<Rightarrow>
                     (let (r, st2) = updateContact net v properties apiKey st1 in (Inr r, st2)))
              else (let (r, st2) = createContact net properties apiKey st1 in (Inr r, st2))))"

text \<open>
  \<^verbatim>\<open>syncContactToHubSpot\<close>: \<open>Inr\<close> is the object the promise resolves with, \<open>Inl\<close> would
  be a rejection of the promise.
\<close>

definition syncContactToHubSpot ::
  "'w net \<Rightarrow> string option \<Rightarrow> HubSpotContact \<Rightarrow> 'w hub exec \<Rightarrow> (thrown + op_result) \<times> 'w hub exec"
where
  "syncContactToHubSpot net env contactData st =
     (case syncContactToHubSpot_try net env contactData st of
        (Inl t, st1) \<Rightarrow> (Inr (catch_failure t), st1)
      | (Inr r, st1) \<Rightarrow> (Inr r, st1))"



record deal_data =
  contactEmail :: string
  dealName :: string
  dealStage :: "string option"
  dealAmount :: "int option"
  properties :: "(string \<times> string) list option"






section \<open>Remote sides used in the scenarios\<close>

text \<open>The state before any call.\<close>

definition start :: "'w \<Rightarrow> 'w hub exec" where
  "start w = \<lparr>ext = \<lparr>remote = w, requests = []\<rparr>, invoked = 0, slept = []\<rparr>"

text \<open>A remote side that gives the same response to every request.\<close>

definition always :: "response \<Rightarrow> unit net" where
  "always r req u = (Resolved r, u)"

text \<open>
  A remote side that plays a script, the \<open>n\<close>-th outcome for the \<open>n\<close>-th network call
  (as \<^verbatim>\<open>mockResolvedValueOnce\<close> chains do in the test suite); past the end of the script
  no response arrives.
\<close>

definition scripted :: "response settled list \<Rightarrow> nat net" where
  "scripted script req n = ((if n < length script then script ! n else Pending), n + 1)"

definition json_response :: "nat \<Rightarrow> jsval \<Rightarrow> response" where
  "json_response code v = \<lparr>status = code, body = Inr v\<rparr>"

text \<open>
  A contact directory with the response shapes of \<^verbatim>\<open>__tests__/hubspot.test.ts\<close>: a search
  answers \<^verbatim>\<open>{ results: [{ id, properties }] }\<close> with at most one match, the one of highest
  id; a create stores the contact under a fresh id and answers \<^verbatim>\<open>{ id }\<close>; an update
  replaces the properties of the contact of that id and answers \<^verbatim>\<open>{}\<close>. Contacts are
  kept newest first, so by descending id.
\<close>

record directory =
  contacts :: "(int \<times> (string \<times> string) list) list"
  next_id :: int

definition contact_json :: "int \<times> (string \<times> string) list \<Rightarrow> jsval" where
  "contact_json c =
     JObj [(''id'', JNum (fst c)),
           (''properties'', JObj (map (\<lambda>(k, v). (k, JObj [(''value'', JStr v)])) (snd c)))]"

fun directory_net :: "directory net" where
  "directory_net (ContactsSearch apiKey e) d =
     (Resolved (json_response 200
        (JObj [(''results'',
                JArr (map contact_json
                       (take 1 (filter (\<lambda>c. map_of (snd c) ''email'' = Some e) (contacts d)))))])),
      d)"
| "directory_net (ContactsCreate apiKey props) d =
     (Resolved (json_response 201 (JObj [(''id'', JNum (next_id d))])),
      d\<lparr>contacts := (next_id d, props) # contacts d, next_id := next_id d + 1\<rparr>)"
| "directory_net (ContactsUpdate apiKey v props) d =
     (if list_ex (\<lambda>c. JNum (fst c) = v) (contacts d) then
        (Resolved (json_response 200 (JObj [])),
         d\<lparr>contacts := map (\<lambda>c. if JNum (fst c) = v then (fst c, props) else c) (contacts d)\<rparr>)
      else (Resolved (json_response 404 (JObj [(''message'', JStr ''resource not found'')])), d))"
| "directory_net req d = (Resolved (json_response 200 (JObj [])), d)"

section \<open>Operations, contacts and responses used in the scenarios\<close>

text \<open>An operation that rejects on every call, with a retryable error that changes from call to call.\<close>

definition flaky_op :: "nat \<Rightarrow> unit settled \<times> nat" where
  "flaky_op n =
     (Rejected (ThrownError (Error
        (if n mod 3 = 0 then ''ECONNREFUSED''
         else if n mod 3 = 1 then ''ETIMEDOUT''
         else ''503 Service Unavailable''))),
      n + 1)"

text \<open>The operation of the test "should not retry on non-retryable errors (400)".\<close>

definition bad_request_op :: "nat \<Rightarrow> unit settled \<times> nat" where
  "bad_request_op n = (Rejected (ThrownError (Error ''400 Bad Request'')), n + 1)"

definition idle :: "nat exec" where
  "idle = \<lparr>ext = 0, invoked = 0, slept = []\<rparr>"

definition jane :: HubSpotContact where
  "jane =
     \<lparr>email = ''jane@example.com'', firstName = Some ''Jane'', lastName = Some ''Roe'',
      company = None, lifecycleStage = None, source = None, customFields = None\<rparr>"

definition jane_properties :: "(string \<times> string) list" where
  "jane_properties =
     [(''email'', ''jane@example.com''), (''firstname'', ''Jane''), (''lastname'', ''Roe''),
      (''company'', []), (''lifecyclestage'', ''subscriber''), (''hs_lead_status'', ''NEW'')]"

definition test_key :: string where
  "test_key = ''test-api-key-123''"

definition rate_limited :: response where
  "rate_limited = json_response 429 (JObj [(''message'', JStr ''Too many requests'')])"

definition unauthorized :: response where
  "unauthorized = json_response 401 (JObj [(''message'', JStr ''Authentication credentials not found'')])"



definition created :: response where
  "created = json_response 200 (JObj [(''id'', JNum 12345)])"

definition empty_object :: response where
  "empty_object = json_response 200 (JObj [])"



text \<open>A lookup that finds nothing, and the answer to a create that carries no \<open>id\<close>.\<close>

definition no_match :: response where
  "no_match = json_response 200 (JObj [(''results'', JArr [])])"

definition created_without_id :: response where
  "created_without_id = json_response 201 (JObj [])"

text \<open>Two syncs of the same contact, one after the other, against an empty directory.\<close>

definition first_sync :: "(thrown + op_result) \<times> directory hub exec" where
  "first_sync =
     syncContactToHubSpot directory_net (Some test_key) jane (start \<lparr>contacts = [], next_id = 1\<rparr>)"

definition second_sync :: "(thrown + op_result) \<times> directory hub exec" where
  "second_sync = syncContactToHubSpot directory_net (Some test_key) jane (snd first_sync)"

text \<open>
  The two forms of a result object: on success no \<open>error\<close>; on failure an \<open>error\<close> and
  no \<open>vid\<close>.
\<close>

definition result_shape :: "op_result \<Rightarrow> bool" where
  "result_shape r = (if success r then error r = JUndef else error r \<noteq> JUndef \<and> vid r = JUndef)"

section \<open>The retry loop, one attempt at a time\<close>

lemma retry_loop_past_end:
  "\<not> attempt \<le> maxA \<Longrightarrow>
   retry_loop fn maxA timeout initialDelay attempt lastError st =
     (Inl (case lastError of Some e \<Rightarrow> e | None \<Rightarrow> Error ''Unknown error in retryWithBackoff''), st)"
  by (subst retry_loop.simps) simp

lemma retry_loop_resolved:
  assumes "attempt \<le> maxA" and "fst (fn (ext st)) = Resolved v"
  shows "retry_loop fn maxA timeout initialDelay attempt lastError st =
           (Inr v, st\<lparr>ext := snd (fn (ext st)), invoked := invoked st + 1\<rparr>)"
  using assms
  by (subst retry_loop.simps) (auto simp add: invoke_def race_timeout_def split: prod.splits)

lemma retry_loop_final:
  assumes "attempt \<le> maxA" and "fst (fn (ext st)) = Rejected t"
    and "attempt = maxA \<or> \<not> isRetryableError (as_error t)"
  shows "retry_loop fn maxA timeout initialDelay attempt lastError st =
           (Inl (as_error t), st\<lparr>ext := snd (fn (ext st)), invoked := invoked st + 1\<rparr>)"
  using assms
  by (subst retry_loop.simps)
     (auto simp add: invoke_def race_timeout_def Let_def split: prod.splits)

lemma retry_loop_again:
  assumes "attempt < maxA" and "fst (fn (ext st)) = Rejected t"
    and "isRetryableError (as_error t)"
  shows "retry_loop fn maxA timeout initialDelay attempt lastError st =
           retry_loop fn maxA timeout initialDelay (attempt + 1) (Some (as_error t))
             (st\<lparr>ext := snd (fn (ext st)), invoked := invoked st + 1,
                 slept := slept st @ [initialDelay * 2 ^ nat (attempt - 1)]\<rparr>)"
  using assms
  by (subst retry_loop.simps)
     (auto simp add: invoke_def race_timeout_def sleep_def Let_def split: prod.splits)

lemma effective_maxAttempts:
  "or_default (maxAttempts (spread_options DEFAULT_OPTIONS options)) 3
     = or_default (maxAttempts options) 3"
  by (simp add: spread_options_def DEFAULT_OPTIONS_def or_default_def split: option.splits)

lemma effective_initialDelay:
  "or_default (initialDelayMs (spread_options DEFAULT_OPTIONS options)) 2000
     = or_default (initialDelayMs options) 2000"
  by (simp add: spread_options_def DEFAULT_OPTIONS_def or_default_def split: option.splits)

section \<open>Claims about lib/hubspot-retry.ts\<close>

text \<open>
  C4. An operation that rejects with a retryable error on every call, run with
  \<open>maxAttempts = 3\<close>, is invoked exactly three times, and the error thrown is the one of
  the third call. The two waits in between are the initial delay and twice that.
\<close>

theorem retry_exhaustion:
  assumes always: "\<forall>s. \<exists>e. fst (fn s) = Rejected (ThrownError e) \<and> isRetryableError e"
    and three: "maxAttempts options = Some 3"
  shows "\<exists>e3. fst (fn (snd (fn (snd (fn (ext st)))))) = Rejected (ThrownError e3)
           \<and> fst (retryWithBackoff fn options st) = Inl e3
           \<and> invoked (snd (retryWithBackoff fn options st)) = invoked st + 3
           \<and> ext (snd (retryWithBackoff fn options st)) = snd (fn (snd (fn (snd (fn (ext st))))))
           \<and> slept (snd (retryWithBackoff fn options st))
               = slept st @ [or_default (initialDelayMs options) 2000,
                             or_default (initialDelayMs options) 2000 * 2]"
proof -
  define s1 where "s1 = snd (fn (ext st))"
  define s2 where "s2 = snd (fn s1)"
  define s3 where "s3 = snd (fn s2)"
  obtain e1 where e1: "fst (fn (ext st)) = Rejected (ThrownError e1)" "isRetryableError e1"
    using always by blast
  obtain e2 where e2: "fst (fn s1) = Rejected (ThrownError e2)" "isRetryableError e2"
    using always by blast
  obtain e3 where e3: "fst (fn s2) = Rejected (ThrownError e3)" "isRetryableError e3"
    using always by blast
  define d where "d = or_default (initialDelayMs (spread_options DEFAULT_OPTIONS options)) 2000"
  define tm where "tm = or_default (timeoutMs (spread_options DEFAULT_OPTIONS options)) 10000"
  define st1 where
    "st1 = st\<lparr>ext := s1, invoked := invoked st + 1, slept := slept st @ [d * 2 ^ nat (1 - 1)]\<rparr>"
  define st2 where
    "st2 = st1\<lparr>ext := s2, invoked := invoked st1 + 1, slept := slept st1 @ [d * 2 ^ nat (2 - 1)]\<rparr>"
  have a1: "retry_loop fn 3 tm d 1 None st = retry_loop fn 3 tm d 2 (Some e1) st1"
    using retry_loop_again [of 1 3 fn st "ThrownError e1" tm d None] e1
    by (simp add: as_error_def st1_def s1_def)
  have a2: "retry_loop fn 3 tm d 2 (Some e1) st1 = retry_loop fn 3 tm d 3 (Some e2) st2"
    using retry_loop_again [of 2 3 fn st1 "ThrownError e2" tm d "Some e1"] e2
    by (simp add: as_error_def st2_def s2_def st1_def)
  have a3: "retry_loop fn 3 tm d 3 (Some e2) st2
              = (Inl e3, st2\<lparr>ext := s3, invoked := invoked st2 + 1\<rparr>)"
    using retry_loop_final [of 3 3 fn st2 "ThrownError e3" tm d "Some e2"] e3
    by (simp add: as_error_def st2_def s3_def)
  have m: "or_default (maxAttempts (spread_options DEFAULT_OPTIONS options)) 3 = 3"
    unfolding effective_maxAttempts using three by (simp add: or_default_def)
  have run: "retryWithBackoff fn options st = (Inl e3, st2\<lparr>ext := s3, invoked := invoked st2 + 1\<rparr>)"
    using a1 a2 a3 by (simp add: retryWithBackoff_def Let_def m d_def tm_def)
  have d: "d = or_default (initialDelayMs options) 2000"
    by (simp add: d_def effective_initialDelay)
  show ?thesis
    using e3 by (simp add: run st2_def st1_def s1_def s2_def s3_def d)
qed

theorem retry_exhaustion_witness:
  "(\<forall>s. \<exists>e. fst (flaky_op s) = Rejected (ThrownError e) \<and> isRetryableError e)
   \<and> fst (retryWithBackoff flaky_op
            \<lparr>maxAttempts = Some 3, timeoutMs = None, initialDelayMs = None\<rparr> idle)
       = Inl (Error ''503 Service Unavailable'')
   \<and> invoked (snd (retryWithBackoff flaky_op
            \<lparr>maxAttempts = Some 3, timeoutMs = None, initialDelayMs = None\<rparr> idle)) = 3
   \<and> slept (snd (retryWithBackoff flaky_op
            \<lparr>maxAttempts = Some 3, timeoutMs = None, initialDelayMs = None\<rparr> idle)) = [2000, 4000]"
proof -
  have r1: "isRetryableError (Error ''ECONNREFUSED'')" by code_simp
  have r2: "isRetryableError (Error ''ETIMEDOUT'')" by code_simp
  have r3: "isRetryableError (Error ''503 Service Unavailable'')" by code_simp
  have h: "\<forall>s. \<exists>e. fst (flaky_op s) = Rejected (ThrownError e) \<and> isRetryableError e"
    using r1 r2 r3 by (simp add: flaky_op_def)
  have third: "fst (flaky_op (snd (flaky_op (snd (flaky_op (ext idle))))))
                 = Rejected (ThrownError (Error ''503 Service Unavailable''))"
    by (simp add: flaky_op_def idle_def)
  show ?thesis
    using h third
      retry_exhaustion [OF h, of "\<lparr>maxAttempts = Some 3, timeoutMs = None, initialDelayMs = None\<rparr>" idle]
    by (simp add: idle_def or_default_def)
qed

text \<open>
  C5, as the claim states it, fails when \<open>maxAttempts\<close> is 0: the operation of the test
  suite that rejects with "400 Bad Request" is then not invoked at all, and the error thrown
  is the fallback error, not the one of the operation.
\<close>

theorem non_retryable_counterexample:
  "fst (bad_request_op (ext idle)) = Rejected (ThrownError (Error ''400 Bad Request''))
   \<and> \<not> isRetryableError (Error ''400 Bad Request'')
   \<and> invoked (snd (retryWithBackoff bad_request_op
                      \<lparr>maxAttempts = Some 0, timeoutMs = None, initialDelayMs = None\<rparr> idle))
       = invoked idle
   \<and> fst (retryWithBackoff bad_request_op
            \<lparr>maxAttempts = Some 0, timeoutMs = None, initialDelayMs = None\<rparr> idle)
       = Inl (Error ''Unknown error in retryWithBackoff'')"
proof -
  have "\<not> isRetryableError (Error ''400 Bad Request'')" by code_simp
  moreover have "retryWithBackoff bad_request_op
        \<lparr>maxAttempts = Some 0, timeoutMs = None, initialDelayMs = None\<rparr> idle
       = (Inl (Error ''Unknown error in retryWithBackoff''), idle)"
    by (simp add: retryWithBackoff_def Let_def spread_options_def DEFAULT_OPTIONS_def
          or_default_def retry_loop_past_end)
  ultimately show ?thesis by (simp add: idle_def bad_request_op_def)
qed

text \<open>
  C5, amended: when at least one attempt is configured (\<open>maxAttempts \<ge> 1\<close>, or absent and
  so 3), an operation that rejects with a non-retryable error is invoked exactly once, and
  that error is rethrown at once: nothing is added to the delays waited.
\<close>

theorem retry_non_retryable_once:
  assumes "fst (fn (ext st)) = Rejected (ThrownError e)"
    and "\<not> isRetryableError e"
    and "1 \<le> or_default (maxAttempts options) 3"
  shows "retryWithBackoff fn options st =
           (Inl e, st\<lparr>ext := snd (fn (ext st)), invoked := invoked st + 1\<rparr>)"
  using assms
  by (simp add: retryWithBackoff_def Let_def effective_maxAttempts retry_loop_final as_error_def)

theorem retry_non_retryable_once_witness:
  "fst (bad_request_op (ext idle)) = Rejected (ThrownError (Error ''400 Bad Request''))
   \<and> \<not> isRetryableError (Error ''400 Bad Request'')
   \<and> (1::int) \<le> or_default (maxAttempts \<lparr>maxAttempts = Some 3, timeoutMs = None, initialDelayMs = None\<rparr>) 3
   \<and> retryWithBackoff bad_request_op
        \<lparr>maxAttempts = Some 3, timeoutMs = None, initialDelayMs = None\<rparr> idle
       = (Inl (Error ''400 Bad Request''), \<lparr>ext = 1, invoked = 1, slept = []\<rparr>)"
proof -
  have h1: "fst (bad_request_op (ext idle)) = Rejected (ThrownError (Error ''400 Bad Request''))"
    by (simp add: bad_request_op_def)
  have h2: "\<not> isRetryableError (Error ''400 Bad Request'')" by code_simp
  have h3: "(1::int) \<le> or_default (maxAttempts \<lparr>maxAttempts = Some 3, timeoutMs = None, initialDelayMs = None\<rparr>) 3"
    by (simp add: or_default_def)
  show ?thesis
    using h1 h2 h3
      retry_non_retryable_once
        [of bad_request_op idle "Error ''400 Bad Request''"
            "\<lparr>maxAttempts = Some 3, timeoutMs = None, initialDelayMs = None\<rparr>"]
    by (simp add: idle_def bad_request_op_def)
qed

text \<open>
  C10. With \<open>maxAttempts \<le> 0\<close> the operation is never invoked (the state, with its count of
  invocations, is as before) and the call rejects with the fallback error.
\<close>

theorem retry_zero_attempts:
  assumes "maxAttempts options = Some n" and "n \<le> 0"
  shows "retryWithBackoff fn options st = (Inl (Error ''Unknown error in retryWithBackoff''), st)"
proof -
  have "or_default (maxAttempts (spread_options DEFAULT_OPTIONS options)) 3 = n"
    unfolding effective_maxAttempts using assms by (simp add: or_default_def)
  then show ?thesis
    using assms by (simp add: retryWithBackoff_def Let_def retry_loop_past_end)
qed

theorem retry_zero_attempts_witness:
  "maxAttempts \<lparr>maxAttempts = Some (- 1), timeoutMs = Some 100, initialDelayMs = Some 10\<rparr> = Some (- 1)
   \<and> (- 1::int) \<le> 0
   \<and> retryWithBackoff flaky_op
        \<lparr>maxAttempts = Some (- 1), timeoutMs = Some 100, initialDelayMs = Some 10\<rparr> idle
       = (Inl (Error ''Unknown error in retryWithBackoff''), idle)"
  using retry_zero_attempts
    [of "\<lparr>maxAttempts = Some (- 1), timeoutMs = Some 100, initialDelayMs = Some 10\<rparr>" "- 1" flaky_op idle]
  by simp

section \<open>A network call answered at the first attempt\<close>

lemma fetch_fst: "fst (fetch net req h) = fst (net req (remote h))"
  by (cases "net req (remote h)") (simp add: fetch_def)

lemma fetch_snd:
  "snd (fetch net req h) = \<lparr>remote = snd (net req (remote h)), requests = requests h @ [req]\<rparr>"
  by (cases "net req (remote h)") (simp add: fetch_def)

lemma fetch_first_resolved:
  assumes "fst (net req (remote (ext st))) = Resolved r"
  shows "fetchWithRetry net req None st =
           (Inr r, st\<lparr>ext := \<lparr>remote = snd (net req (remote (ext st))),
                              requests = requests (ext st) @ [req]\<rparr>,
                       invoked := invoked st + 1\<rparr>)"
  using assms retry_loop_resolved [of 1 3 "fetch net req" st r 10000 2000 None]
  by (simp add: fetchWithRetry_def retryWithBackoff_def Let_def spread_options_def
        DEFAULT_OPTIONS_def or_default_def fetch_fst fetch_snd)

lemma truthy_opt_prop:
  "truthy (opt_prop v p) \<Longrightarrow> get_prop v p = Inr (opt_prop v p)"
  by (cases "get_prop v p") (simp_all add: opt_prop_def)

section \<open>A lookup answered outside 200 to 299\<close>

lemma getContactByEmail_not_ok:
  assumes "fst (net (ContactsSearch apiKey e) (remote (ext st))) = Resolved r" and "\<not> ok r"
  shows "getContactByEmail net e apiKey st =
           (JNull, st\<lparr>ext := \<lparr>remote = snd (net (ContactsSearch apiKey e) (remote (ext st))),
                               requests = requests (ext st) @ [ContactsSearch apiKey e]\<rparr>,
                        invoked := invoked st + 1\<rparr>)"
  using assms
  by (simp add: getContactByEmail_def getContactByEmail_try_def fetch_first_resolved)

section \<open>Results always have one of the two forms\<close>

lemma js_or_defined: "js_or m (JStr s) \<noteq> JUndef"
  by (cases m) (simp_all add: js_or_def)

lemma shape_catch_failure: "result_shape (catch_failure t)"
  by (simp add: result_shape_def catch_failure_def)

lemma shape_failure: "result_shape (failure (js_or m (JStr s)))"
  by (simp add: result_shape_def failure_def js_or_defined)

lemma shape_createContact: "result_shape (fst (createContact net props apiKey st))"
  by (auto simp add: createContact_def createContact_try_def shape_catch_failure shape_failure
        result_shape_def [of "\<lparr>success = True, vid = i, dealId = j, error = JUndef\<rparr>" for i j]
      split: prod.splits sum.splits)

lemma shape_updateContact: "result_shape (fst (updateContact net v props apiKey st))"
  by (auto simp add: updateContact_def updateContact_try_def shape_catch_failure shape_failure
        result_shape_def [of "\<lparr>success = True, vid = i, dealId = j, error = JUndef\<rparr>" for i j]
      split: prod.splits sum.splits)

text \<open>
  Whatever the contact, the credential and the remote side, \<^verbatim>\<open>syncContactToHubSpot\<close>
  resolves with a result object and its promise is never rejected: every throw ends in a
  \<^verbatim>\<open>catch\<close> that returns a failure. A failure has an \<open>error\<close> and no \<open>vid\<close>, a success
  has no \<open>error\<close>.
\<close>

lemma sync_resolves:
  "\<exists>r. fst (syncContactToHubSpot net env contactData st) = Inr r \<and> result_shape r"
proof (cases "getHubSpotApiKey env")
  case (Inl t)
  then show ?thesis
    by (simp add: syncContactToHubSpot_def syncContactToHubSpot_try_def shape_catch_failure)
next
  case (Inr apiKey)
  obtain c st1 where lookup: "getContactByEmail net (email contactData) apiKey st = (c, st1)"
    by (cases "getContactByEmail net (email contactData) apiKey st")
  show ?thesis
  proof (cases "truthy (opt_prop c ''vid'')")
    case True
    then have v: "get_prop c ''vid'' = Inr (opt_prop c ''vid'')"
      by (rule truthy_opt_prop)
    show ?thesis
      using Inr lookup True v
        shape_updateContact [of net "opt_prop c ''vid''" "contact_properties contactData" apiKey st1]
      by (auto simp add: syncContactToHubSpot_def syncContactToHubSpot_try_def split: prod.splits)
  next
    case False
    show ?thesis
      using Inr lookup False
        shape_createContact [of net "contact_properties contactData" apiKey st1]
      by (auto simp add: syncContactToHubSpot_def syncContactToHubSpot_try_def split: prod.splits)
  qed
qed

section \<open>Claims about lib/hubspot.ts\<close>

text \<open>
  C6. When \<^verbatim>\<open>HUBSPOT_API_KEY\<close> is not set (or is the empty string), the sync resolves with
  a failure whose error names \<^verbatim>\<open>HUBSPOT_API_KEY\<close>, and the state is as before: no request
  was sent and nothing was invoked.
\<close>

theorem sync_missing_key:
  assumes "env = None \<or> env = Some []"
  shows "syncContactToHubSpot net env contactData st
           = (Inr \<lparr>success = False, vid = JUndef, dealId = JUndef,
                   error = JStr ''HUBSPOT_API_KEY environment variable is not set''\<rparr>, st)
         \<and> str_includes ''HUBSPOT_API_KEY environment variable is not set'' ''HUBSPOT_API_KEY''"
proof -
  have "str_includes ''HUBSPOT_API_KEY environment variable is not set'' ''HUBSPOT_API_KEY''"
    by code_simp
  then show ?thesis
    using assms
    by (auto simp add: syncContactToHubSpot_def syncContactToHubSpot_try_def getHubSpotApiKey_def
          catch_failure_def)
qed

theorem sync_missing_key_witness:
  "((None :: string option) = None \<or> (None :: string option) = Some [])
   \<and> fst (syncContactToHubSpot directory_net None jane (start \<lparr>contacts = [], next_id = 1\<rparr>))
       = Inr \<lparr>success = False, vid = JUndef, dealId = JUndef,
              error = JStr ''HUBSPOT_API_KEY environment variable is not set''\<rparr>
   \<and> requests (ext (snd (syncContactToHubSpot directory_net None jane
                           (start \<lparr>contacts = [], next_id = 1\<rparr>)))) = []"
  using sync_missing_key [of None directory_net jane "start \<lparr>contacts = [], next_id = 1\<rparr>"]
  by (simp add: start_def)

section \<open>Responses outside 200 to 299\<close>

lemma createContact_not_ok:
  assumes "fst (net (ContactsCreate apiKey (flat_object props)) (remote (ext st))) = Resolved r"
    and "\<not> ok r"
  shows "\<not> success (fst (createContact net props apiKey st))"
    and "snd (createContact net props apiKey st)
           = st\<lparr>ext := \<lparr>remote = snd (net (ContactsCreate apiKey (flat_object props)) (remote (ext st))),
                          requests = requests (ext st) @ [ContactsCreate apiKey (flat_object props)]\<rparr>,
                  invoked := invoked st + 1\<rparr>"
  using assms
  by (simp_all add: createContact_def createContact_try_def fetch_first_resolved
        catch_failure_def failure_def split: sum.splits)

text \<open>
  C3, as the claim states it, fails when the remote side answers 401 (with the message
  "Authentication credentials not found") to every request: the 401 of the lookup is taken
  for "no such contact", a create follows, so two requests are sent, and the error of the
  result is the remote message, which does not contain "401".
\<close>

theorem unauthorized_counterexample:
  "status unauthorized = 401
   \<and> fst (syncContactToHubSpot (always unauthorized) (Some test_key) jane (start ()))
       = Inr \<lparr>success = False, vid = JUndef, dealId = JUndef,
              error = JStr ''Authentication credentials not found''\<rparr>
   \<and> requests (ext (snd (syncContactToHubSpot (always unauthorized) (Some test_key) jane (start ()))))
       = [ContactsSearch test_key ''jane@example.com'', ContactsCreate test_key jane_properties]
   \<and> \<not> str_includes ''Authentication credentials not found'' ''401''"
proof -
  have "status unauthorized = 401"
    by (simp add: unauthorized_def json_response_def)
  moreover have "fst (syncContactToHubSpot (always unauthorized) (Some test_key) jane (start ()))
       = Inr \<lparr>success = False, vid = JUndef, dealId = JUndef,
              error = JStr ''Authentication credentials not found''\<rparr>"
    by code_simp
  moreover have "requests (ext (snd (syncContactToHubSpot (always unauthorized) (Some test_key) jane (start ()))))
       = [ContactsSearch test_key ''jane@example.com'', ContactsCreate test_key jane_properties]"
    by code_simp
  moreover have "\<not> str_includes ''Authentication credentials not found'' ''401''"
    by code_simp
  ultimately show ?thesis by simp
qed

text \<open>
  C3, amended: when the credential is set and the remote side answers every request with
  HTTP 401, \<^verbatim>\<open>syncContactToHubSpot\<close> resolves with a failure after exactly two requests,
  the lookup and then one create, neither of them retried and with no backoff wait.
\<close>

theorem sync_unauthorized:
  assumes key: "getHubSpotApiKey env = Inr apiKey"
    and all401: "\<forall>req w. \<exists>r. fst (net req w) = Resolved r \<and> status r = 401"
  shows "\<exists>r. fst (syncContactToHubSpot net env contactData st) = Inr r \<and> \<not> success r
           \<and> requests (ext (snd (syncContactToHubSpot net env contactData st)))
               = requests (ext st)
                 @ [ContactsSearch apiKey (email contactData),
                    ContactsCreate apiKey (flat_object (contact_properties contactData))]
           \<and> invoked (snd (syncContactToHubSpot net env contactData st)) = invoked st + 2
           \<and> slept (snd (syncContactToHubSpot net env contactData st)) = slept st"
proof -
  define search where "search = ContactsSearch apiKey (email contactData)"
  define create where "create = ContactsCreate apiKey (flat_object (contact_properties contactData))"
  obtain r1 where r1: "fst (net search (remote (ext st))) = Resolved r1" "status r1 = 401"
    using all401 by blast
  define st1 where
    "st1 = st\<lparr>ext := \<lparr>remote = snd (net search (remote (ext st))),
                        requests = requests (ext st) @ [search]\<rparr>,
                invoked := invoked st + 1\<rparr>"
  have lookup: "getContactByEmail net (email contactData) apiKey st = (JNull, st1)"
    using getContactByEmail_not_ok [of net apiKey "email contactData" st r1] r1
    by (simp add: ok_def st1_def search_def)
  obtain r2 where r2: "fst (net create (remote (ext st1))) = Resolved r2" "status r2 = 401"
    using all401 by blast
  have nok: "\<not> ok r2"
    using r2 by (simp add: ok_def)
  have c1: "\<not> success (fst (createContact net (contact_properties contactData) apiKey st1))"
    using createContact_not_ok(1) [of net apiKey "contact_properties contactData" st1 r2] r2 nok
    by (simp add: create_def)
  have c2: "snd (createContact net (contact_properties contactData) apiKey st1)
              = st1\<lparr>ext := \<lparr>remote = snd (net create (remote (ext st1))),
                               requests = requests (ext st1) @ [create]\<rparr>,
                     invoked := invoked st1 + 1\<rparr>"
    using createContact_not_ok(2) [of net apiKey "contact_properties contactData" st1 r2] r2 nok
    by (simp add: create_def)
  have run: "syncContactToHubSpot net env contactData st
               = (Inr (fst (createContact net (contact_properties contactData) apiKey st1)),
                  snd (createContact net (contact_properties contactData) apiKey st1))"
    using key lookup
    by (simp add: syncContactToHubSpot_def syncContactToHubSpot_try_def opt_prop_def
          split: prod.splits)
  have f: "fst (syncContactToHubSpot net env contactData st)
             = Inr (fst (createContact net (contact_properties contactData) apiKey st1))"
    by (simp add: run)
  have s: "snd (syncContactToHubSpot net env contactData st)
             = st1\<lparr>ext := \<lparr>remote = snd (net create (remote (ext st1))),
                              requests = requests (ext st1) @ [create]\<rparr>,
                    invoked := invoked st1 + 1\<rparr>"
    by (simp add: run c2)
  show ?thesis
    unfolding f s using c1 by (simp add: st1_def search_def create_def)
qed

theorem sync_unauthorized_witness:
  "getHubSpotApiKey (Some test_key) = Inr test_key
   \<and> (\<forall>req w. \<exists>r. fst (always unauthorized req w) = Resolved r \<and> status r = 401)
   \<and> (\<exists>r. fst (syncContactToHubSpot (always unauthorized) (Some test_key) jane (start ())) = Inr r
          \<and> \<not> success r)
   \<and> length (requests (ext (snd (syncContactToHubSpot (always unauthorized) (Some test_key) jane
                                   (start ()))))) = 2
   \<and> slept (snd (syncContactToHubSpot (always unauthorized) (Some test_key) jane (start ()))) = []"
proof -
  have h1: "getHubSpotApiKey (Some test_key) = Inr test_key"
    by (simp add: getHubSpotApiKey_def test_key_def)
  have h2: "\<forall>req w. \<exists>r. fst (always unauthorized req w) = Resolved r \<and> status r = 401"
    by (simp add: always_def unauthorized_def json_response_def)
  show ?thesis
    using h1 h2 sync_unauthorized [OF h1 h2, of jane "start ()"]
    by (auto simp add: start_def)
qed

section \<open>Responses outside 200 to 299, operation by operation\<close>









section \<open>The update path\<close>

lemma getContactByEmail_found:
  assumes "fst (net (ContactsSearch apiKey e) (remote (ext st))) = Resolved r" and "ok r"
    and "body r = Inr (JObj [(''results'', JArr (c # cs))])"
  shows "getContactByEmail net e apiKey st =
           (c, st\<lparr>ext := \<lparr>remote = snd (net (ContactsSearch apiKey e) (remote (ext st))),
                           requests = requests (ext st) @ [ContactsSearch apiKey e]\<rparr>,
                    invoked := invoked st + 1\<rparr>)"
proof -
  have zero: "parse_index ''0'' = Some 0"
    by (simp add: parse_index_def is_digit_def digits_value_def)
  show ?thesis
    using assms
    by (simp add: getContactByEmail_def getContactByEmail_try_def fetch_first_resolved
          js_or_def gt_zero_def zero)
qed

text \<open>
  What the code does when the contact found by the lookup carries a truthy \<open>vid\<close>: it sends
  one update addressed to that \<open>vid\<close>, no create, and on a response in 200 to 299 resolves
  with that same \<open>vid\<close>.
\<close>

lemma sync_updates_when_vid_found:
  assumes key: "getHubSpotApiKey env = Inr apiKey"
    and search: "fst (net (ContactsSearch apiKey (email contactData)) (remote (ext st))) = Resolved r1"
      "ok r1" "body r1 = Inr (JObj [(''results'', JArr (c # cs))])"
    and found: "truthy (opt_prop c ''vid'')"
    and update: "fst (net (ContactsUpdate apiKey (opt_prop c ''vid'')
                            (flat_object (contact_properties contactData)))
                        (snd (net (ContactsSearch apiKey (email contactData)) (remote (ext st)))))
                   = Resolved r2" "ok r2"
  shows "fst (syncContactToHubSpot net env contactData st)
           = Inr \<lparr>success = True, vid = opt_prop c ''vid'', dealId = JUndef, error = JUndef\<rparr>"
    and "requests (ext (snd (syncContactToHubSpot net env contactData st)))
           = requests (ext st)
             @ [ContactsSearch apiKey (email contactData),
                ContactsUpdate apiKey (opt_prop c ''vid'')
                  (flat_object (contact_properties contactData))]"
proof -
  define st1 where
    "st1 = st\<lparr>ext := \<lparr>remote = snd (net (ContactsSearch apiKey (email contactData)) (remote (ext st))),
                        requests = requests (ext st) @ [ContactsSearch apiKey (email contactData)]\<rparr>,
                invoked := invoked st + 1\<rparr>"
  have lookup: "getContactByEmail net (email contactData) apiKey st = (c, st1)"
    using search getContactByEmail_found [of net apiKey "email contactData" st r1 c cs]
    by (simp add: st1_def)
  have v: "get_prop c ''vid'' = Inr (opt_prop c ''vid'')"
    using found by (rule truthy_opt_prop)
  have u: "fst (net (ContactsUpdate apiKey (opt_prop c ''vid'')
                       (flat_object (contact_properties contactData))) (remote (ext st1)))
             = Resolved r2"
    using update(1) by (simp add: st1_def)
  have upd: "updateContact net (opt_prop c ''vid'') (contact_properties contactData) apiKey st1
               = (\<lparr>success = True, vid = opt_prop c ''vid'', dealId = JUndef, error = JUndef\<rparr>,
                  st1\<lparr>ext := \<lparr>remote = snd (net (ContactsUpdate apiKey (opt_prop c ''vid'')
                                                 (flat_object (contact_properties contactData)))
                                             (remote (ext st1))),
                                 requests = requests (ext st1)
                                   @ [ContactsUpdate apiKey (opt_prop c ''vid'')
                                        (flat_object (contact_properties contactData))]\<rparr>,
                       invoked := invoked st1 + 1\<rparr>)"
    using update(2) u by (simp add: updateContact_def updateContact_try_def fetch_first_resolved)
  have run: "syncContactToHubSpot net env contactData st
               = (Inr \<lparr>success = True, vid = opt_prop c ''vid'', dealId = JUndef, error = JUndef\<rparr>,
                  snd (updateContact net (opt_prop c ''vid'') (contact_properties contactData)
                         apiKey st1))"
    using key found v
    by (simp add: syncContactToHubSpot_def syncContactToHubSpot_try_def lookup upd)
  show "fst (syncContactToHubSpot net env contactData st)
           = Inr \<lparr>success = True, vid = opt_prop c ''vid'', dealId = JUndef, error = JUndef\<rparr>"
    by (simp add: run)
  show "requests (ext (snd (syncContactToHubSpot net env contactData st)))
           = requests (ext st)
             @ [ContactsSearch apiKey (email contactData),
                ContactsUpdate apiKey (opt_prop c ''vid'')
                  (flat_object (contact_properties contactData))]"
    unfolding run upd by (simp add: st1_def)
qed

text \<open>
  C1: the code does not do what the claim says. Two syncs of the same contact, one after the
  other, against a directory that answers as the test suite's mocks do (search results carry
  \<open>id\<close>): the second lookup does return the contact created by the first sync, but the code
  reads \<open>vid\<close> from it, finds nothing, and creates a second contact.
\<close>

theorem sequential_syncs_create_twice:
  "fst first_sync = Inr \<lparr>success = True, vid = JNum 1, dealId = JUndef, error = JUndef\<rparr>
   \<and> fst second_sync = Inr \<lparr>success = True, vid = JNum 2, dealId = JUndef, error = JUndef\<rparr>
   \<and> requests (ext (snd second_sync))
       = [ContactsSearch test_key ''jane@example.com'', ContactsCreate test_key jane_properties,
          ContactsSearch test_key ''jane@example.com'', ContactsCreate test_key jane_properties]
   \<and> contacts (remote (ext (snd second_sync))) = [(2, jane_properties), (1, jane_properties)]"
proof -
  have "fst first_sync = Inr \<lparr>success = True, vid = JNum 1, dealId = JUndef, error = JUndef\<rparr>"
    by code_simp
  moreover have
    "fst second_sync = Inr \<lparr>success = True, vid = JNum 2, dealId = JUndef, error = JUndef\<rparr>"
    by code_simp
  moreover have "requests (ext (snd second_sync))
       = [ContactsSearch test_key ''jane@example.com'', ContactsCreate test_key jane_properties,
          ContactsSearch test_key ''jane@example.com'', ContactsCreate test_key jane_properties]"
    by code_simp
  moreover have
    "contacts (remote (ext (snd second_sync))) = [(2, jane_properties), (1, jane_properties)]"
    by code_simp
  ultimately show ?thesis by simp
qed

text \<open>
  C2: the code does not do what the claim says. When the first two network calls are
  answered with HTTP 429 and the third would be answered with 200, the sync fails: \<^verbatim>\<open>fetch\<close>
  resolves with the 429 responses, so the retry loop sees no error, waits for nothing, and
  the third call is never made.
\<close>

theorem rate_limit_not_retried:
  "syncContactToHubSpot (scripted [Resolved rate_limited, Resolved rate_limited, Resolved created])
     (Some test_key) jane (start 0)
   = (Inr \<lparr>success = False, vid = JUndef, dealId = JUndef, error = JStr ''Too many requests''\<rparr>,
      \<lparr>ext = \<lparr>remote = 2,
               requests = [ContactsSearch test_key ''jane@example.com'',
                           ContactsCreate test_key jane_properties]\<rparr>,
       invoked = 2, slept = []\<rparr>)"
  by code_simp

text \<open>
  C8: the code does not do what the claim says. When every response is 200 with the body
  \<^verbatim>\<open>{}\<close> (the test "should handle malformed responses"), the create response has no \<open>id\<close>,
  and the sync still reports success, with \<open>vid\<close> undefined.
\<close>

theorem missing_id_reported_as_success:
  "fst (syncContactToHubSpot (always empty_object) (Some test_key) jane (start ()))
     = Inr \<lparr>success = True, vid = JUndef, dealId = JUndef, error = JUndef\<rparr>"
  by code_simp

text \<open>
  C9: the code does not do what the claim says. The promise of \<^verbatim>\<open>syncContactToHubSpot\<close> is
  never rejected, but the object it resolves with need not have one of the two forms
  \<^verbatim>\<open>{ success: true, vid }\<close> and \<^verbatim>\<open>{ success: false, error }\<close>: when the lookup finds
  nothing and the create is answered with status 201 and the body \<^verbatim>\<open>{}\<close>, the result is a
  success whose \<open>vid\<close> is undefined.
\<close>

theorem success_without_vid:
  "syncContactToHubSpot (scripted [Resolved no_match, Resolved created_without_id])
     (Some test_key) jane (start 0)
   = (Inr \<lparr>success = True, vid = JUndef, dealId = JUndef, error = JUndef\<rparr>,
      \<lparr>ext = \<lparr>remote = 2,
               requests = [ContactsSearch test_key ''jane@example.com'',
                           ContactsCreate test_key jane_properties]\<rparr>,
       invoked = 2, slept = []\<rparr>)"
  by code_simp

end
